theory Spec2Isabelle
  imports Main "HOL-Library.Char_ord" "HOL-Library.List_Lexorder"
begin

section \<open>The generated upcall index header\<close>

text \<open>
  \<^verbatim>\<open>rffi_upcallsindex.h\<close> is a generated C header. Behind its include guard it holds
  388 object-like macro definitions \<^verbatim>\<open>#define NAME_x SLOT\<close> on lines 5 to 392, followed
  on line 394 by \<^verbatim>\<open>#define UPCALLS_TABLE_SIZE 278\<close>. The header is embedded as the list
  of its definitions in file order, one pair per line of the header, so that the entry
  at list position \<open>i\<close> is the directive on line \<open>i + 5\<close>.
\<close>

type_synonym macro_def = "string \<times> nat"

definition upcalls_index :: "macro_def list" where
  "upcalls_index = [
    (''ATTRIB_x'', 0),
    (''BODY_x'', 1),
    (''CAAR_x'', 2),
    (''CAD4R_x'', 3),
    (''CADDDR_x'', 4),
    (''CADDR_x'', 5),
    (''CADR_x'', 6),
    (''CAR_x'', 7),
    (''CDAR_x'', 8),
    (''CDDDR_x'', 9),
    (''CDDR_x'', 10),
    (''CDR_x'', 11),
    (''CLOENV_x'', 12),
    (''COMPLEX_x'', 13),
    (''DUPLICATE_ATTRIB_x'', 14),
    (''ENCLOS_x'', 15),
    (''FASTR_getConnectionChar_x'', 16),
    (''FORMALS_x'', 17),
    (''GetRNGstate_x'', 18),
    (''INTEGER_x'', 19),
    (''IS_S4_OBJECT_x'', 20),
    (''LENGTH_x'', 21),
    (''LOGICAL_x'', 22),
    (''NAMED_x'', 23),
    (''OBJECT_x'', 24),
    (''PRCODE_x'', 25),
    (''PRENV_x'', 26),
    (''PRINTNAME_x'', 27),
    (''PRSEEN_x'', 28),
    (''PRVALUE_x'', 29),
    (''PutRNGstate_x'', 30),
    (''RAW_x'', 31),
    (''RDEBUG_x'', 32),
    (''REAL_x'', 33),
    (''RSTEP_x'', 34),
    (''R_BaseEnv_x'', 35),
    (''R_BaseNamespace_x'', 36),
    (''R_BindingIsLocked_x'', 37),
    (''R_CHAR_x'', 38),
    (''R_CleanUp_x'', 39),
    (''R_ExternalPtrAddr_x'', 40),
    (''R_ExternalPtrProtected_x'', 41),
    (''R_ExternalPtrTag_x'', 42),
    (''R_FindNamespace_x'', 43),
    (''R_GetConnection_x'', 44),
    (''R_GlobalContext_x'', 45),
    (''R_GlobalEnv_x'', 46),
    (''R_Home_x'', 47),
    (''R_HomeDir_x'', 48),
    (''R_Interactive_x'', 49),
    (''R_LockBinding_x'', 50),
    (''R_MakeExternalPtr_x'', 51),
    (''R_MethodsNamespace_x'', 52),
    (''R_NamespaceRegistry_x'', 53),
    (''R_NewHashedEnv_x'', 54),
    (''R_ParseVector_x'', 55),
    (''R_PreserveObject_x'', 56),
    (''R_PromiseExpr_x'', 57),
    (''R_ProtectWithIndex_x'', 58),
    (''R_ReadConnection_x'', 59),
    (''R_ReleaseObject_x'', 60),
    (''R_Reprotect_x'', 61),
    (''R_SetExternalPtrAddr_x'', 62),
    (''R_SetExternalPtrProtected_x'', 63),
    (''R_SetExternalPtrTag_x'', 64),
    (''R_TempDir_x'', 65),
    (''R_ToplevelExec_x'', 66),
    (''R_WriteConnection_x'', 67),
    (''R_alloc_x'', 68),
    (''R_compute_identical_x'', 69),
    (''R_do_MAKE_CLASS_x'', 70),
    (''R_do_new_object_x'', 71),
    (''R_do_slot_x'', 72),
    (''R_do_slot_assign_x'', 73),
    (''R_getClassDef_x'', 74),
    (''R_getContextCall_x'', 75),
    (''R_getContextEnv_x'', 76),
    (''R_getContextFun_x'', 77),
    (''R_getContextSrcRef_x'', 78),
    (''R_getGlobalFunctionContext_x'', 79),
    (''R_getParentFunctionContext_x'', 80),
    (''R_has_slot_x'', 81),
    (''R_insideBrowser_x'', 82),
    (''R_isEqual_x'', 83),
    (''R_isGlobal_x'', 84),
    (''R_lsInternal3_x'', 85),
    (''R_new_custom_connection_x'', 86),
    (''R_tryEval_x'', 87),
    (''R_unLockBinding_x'', 88),
    (''Rf_GetOption1_x'', 89),
    (''Rf_NonNullStringMatch_x'', 90),
    (''Rf_PairToVectorList_x'', 91),
    (''Rf_PrintValue_x'', 92),
    (''Rf_ScalarDouble_x'', 93),
    (''Rf_ScalarInteger_x'', 94),
    (''Rf_ScalarLogical_x'', 95),
    (''Rf_ScalarString_x'', 96),
    (''Rf_VectorToPairList_x'', 97),
    (''Rf_allocArray_x'', 98),
    (''Rf_allocMatrix_x'', 99),
    (''Rf_allocVector_x'', 100),
    (''Rf_any_duplicated_x'', 101),
    (''Rf_any_duplicated3_x'', 102),
    (''Rf_asChar_x'', 103),
    (''Rf_asCharacterFactor_x'', 104),
    (''Rf_asInteger_x'', 105),
    (''Rf_asLogical_x'', 106),
    (''Rf_asReal_x'', 107),
    (''Rf_classgets_x'', 108),
    (''Rf_coerceVector_x'', 109),
    (''Rf_cons_x'', 110),
    (''Rf_copyListMatrix_x'', 111),
    (''Rf_copyMatrix_x'', 112),
    (''Rf_copyMostAttrib_x'', 113),
    (''Rf_dchisq_x'', 114),
    (''Rf_defineVar_x'', 115),
    (''Rf_dnchisq_x'', 116),
    (''Rf_dunif_x'', 117),
    (''Rf_duplicate_x'', 118),
    (''Rf_error_x'', 119),
    (''Rf_errorcall_x'', 120),
    (''Rf_eval_x'', 121),
    (''Rf_findFun_x'', 122),
    (''Rf_findVar_x'', 123),
    (''Rf_findVarInFrame_x'', 124),
    (''Rf_findVarInFrame3_x'', 125),
    (''Rf_getAttrib_x'', 126),
    (''Rf_gsetVar_x'', 127),
    (''Rf_inherits_x'', 128),
    (''Rf_install_x'', 129),
    (''Rf_installChar_x'', 130),
    (''Rf_isNull_x'', 131),
    (''Rf_isString_x'', 132),
    (''Rf_lengthgets_x'', 133),
    (''Rf_match_x'', 134),
    (''Rf_mkCharLenCE_x'', 135),
    (''Rf_namesgets_x'', 136),
    (''Rf_ncols_x'', 137),
    (''Rf_nrows_x'', 138),
    (''Rf_pchisq_x'', 139),
    (''Rf_pnchisq_x'', 140),
    (''Rf_protect_x'', 141),
    (''Rf_punif_x'', 142),
    (''Rf_qchisq_x'', 143),
    (''Rf_qnchisq_x'', 144),
    (''Rf_qunif_x'', 145),
    (''Rf_rchisq_x'', 146),
    (''Rf_rnchisq_x'', 147),
    (''Rf_runif_x'', 148),
    (''Rf_setAttrib_x'', 149),
    (''Rf_str2type_x'', 150),
    (''Rf_unprotect_x'', 151),
    (''Rf_unprotect_ptr_x'', 152),
    (''Rf_warning_x'', 153),
    (''Rf_warningcall_x'', 154),
    (''Rprintf_x'', 155),
    (''SETCAD4R_x'', 156),
    (''SETCADDDR_x'', 157),
    (''SETCADDR_x'', 158),
    (''SETCADR_x'', 159),
    (''SETCAR_x'', 160),
    (''SETCDR_x'', 161),
    (''SET_BODY_x'', 162),
    (''SET_CLOENV_x'', 163),
    (''SET_FORMALS_x'', 164),
    (''SET_NAMED_FASTR_x'', 165),
    (''SET_RDEBUG_x'', 166),
    (''SET_RSTEP_x'', 167),
    (''SET_S4_OBJECT_x'', 168),
    (''SET_STRING_ELT_x'', 169),
    (''SET_SYMVALUE_x'', 170),
    (''SET_TAG_x'', 171),
    (''SET_TYPEOF_FASTR_x'', 172),
    (''SET_VECTOR_ELT_x'', 173),
    (''STRING_ELT_x'', 174),
    (''SYMVALUE_x'', 175),
    (''TAG_x'', 176),
    (''TYPEOF_x'', 177),
    (''UNSET_S4_OBJECT_x'', 178),
    (''VECTOR_ELT_x'', 179),
    (''forceSymbols_x'', 180),
    (''getCCallable_x'', 181),
    (''getConnectionClassString_x'', 182),
    (''getEmbeddingDLLInfo_x'', 183),
    (''getOpenModeString_x'', 184),
    (''getSummaryDescription_x'', 185),
    (''isSeekable_x'', 186),
    (''octsize_x'', 187),
    (''registerCCallable_x'', 188),
    (''registerRoutines_x'', 189),
    (''restoreHandlerStacks_x'', 190),
    (''setDotSymbolValues_x'', 191),
    (''unif_rand_x'', 192),
    (''useDynamicSymbols_x'', 193),
    (''Rf_any_duplicated3_x'', 102),
    (''Rf_asChar_x'', 103),
    (''Rf_asCharacterFactor_x'', 104),
    (''Rf_asInteger_x'', 105),
    (''Rf_asLogical_x'', 106),
    (''Rf_asReal_x'', 107),
    (''Rf_classgets_x'', 108),
    (''Rf_coerceVector_x'', 109),
    (''Rf_cons_x'', 110),
    (''Rf_copyListMatrix_x'', 111),
    (''isSeekable_x'', 186),
    (''octsize_x'', 187),
    (''registerCCallable_x'', 188),
    (''registerRoutines_x'', 189),
    (''restoreHandlerStacks_x'', 190),
    (''setDotSymbolValues_x'', 191),
    (''unif_rand_x'', 192),
    (''useDynamicSymbols_x'', 193),
    (''Rf_asChar_x'', 102),
    (''Rf_asCharacterFactor_x'', 103),
    (''Rf_asInteger_x'', 104),
    (''Rf_asLogical_x'', 105),
    (''Rf_asReal_x'', 106),
    (''Rf_classgets_x'', 107),
    (''Rf_coerceVector_x'', 108),
    (''Rf_cons_x'', 109),
    (''Rf_copyListMatrix_x'', 110),
    (''Rf_copyMatrix_x'', 111),
    (''Rf_copyMostAttrib_x'', 112),
    (''Rf_dbeta_x'', 113),
    (''Rf_dbinom_x'', 114),
    (''Rf_dcauchy_x'', 115),
    (''Rf_dchisq_x'', 116),
    (''Rf_defineVar_x'', 117),
    (''Rf_dexp_x'', 118),
    (''Rf_df_x'', 119),
    (''Rf_dgamma_x'', 120),
    (''Rf_dgeom_x'', 121),
    (''Rf_dhyper_x'', 122),
    (''Rf_dlnorm_x'', 123),
    (''Rf_dlogis_x'', 124),
    (''Rf_dnbeta_x'', 125),
    (''Rf_dnbinom_x'', 126),
    (''Rf_dnbinom_mu_x'', 127),
    (''Rf_dnchisq_x'', 128),
    (''Rf_dnf_x'', 129),
    (''Rf_dnorm_x'', 130),
    (''Rf_dnt_x'', 131),
    (''Rf_dpois_x'', 132),
    (''Rf_dsignrank_x'', 133),
    (''Rf_dt_x'', 134),
    (''Rf_dunif_x'', 135),
    (''Rf_duplicate_x'', 136),
    (''Rf_dweibull_x'', 137),
    (''Rf_dwilcox_x'', 138),
    (''Rf_error_x'', 139),
    (''Rf_errorcall_x'', 140),
    (''Rf_eval_x'', 141),
    (''Rf_findFun_x'', 142),
    (''Rf_findVar_x'', 143),
    (''Rf_findVarInFrame_x'', 144),
    (''Rf_findVarInFrame3_x'', 145),
    (''Rf_ftrunc_x'', 146),
    (''Rf_getAttrib_x'', 147),
    (''Rf_gsetVar_x'', 148),
    (''Rf_inherits_x'', 149),
    (''Rf_install_x'', 150),
    (''Rf_installChar_x'', 151),
    (''Rf_isNull_x'', 152),
    (''Rf_isString_x'', 153),
    (''Rf_lengthgets_x'', 154),
    (''Rf_match_x'', 155),
    (''Rf_mkCharLenCE_x'', 156),
    (''Rf_namesgets_x'', 157),
    (''Rf_ncols_x'', 158),
    (''Rf_nrows_x'', 159),
    (''Rf_pbeta_x'', 160),
    (''Rf_pbinom_x'', 161),
    (''Rf_pcauchy_x'', 162),
    (''Rf_pchisq_x'', 163),
    (''Rf_pexp_x'', 164),
    (''Rf_pf_x'', 165),
    (''Rf_pgamma_x'', 166),
    (''Rf_pgeom_x'', 167),
    (''Rf_phyper_x'', 168),
    (''Rf_plnorm_x'', 169),
    (''Rf_plogis_x'', 170),
    (''Rf_pnbeta_x'', 171),
    (''Rf_pnbinom_x'', 172),
    (''Rf_pnbinom_mu_x'', 173),
    (''Rf_pnchisq_x'', 174),
    (''Rf_pnf_x'', 175),
    (''Rf_pnorm_x'', 176),
    (''Rf_pnt_x'', 177),
    (''Rf_ppois_x'', 178),
    (''Rf_protect_x'', 179),
    (''Rf_psignrank_x'', 180),
    (''Rf_pt_x'', 181),
    (''Rf_ptukey_x'', 182),
    (''Rf_punif_x'', 183),
    (''Rf_pweibull_x'', 184),
    (''Rf_pwilcox_x'', 185),
    (''Rf_qbeta_x'', 186),
    (''Rf_qbinom_x'', 187),
    (''Rf_qcauchy_x'', 188),
    (''Rf_qchisq_x'', 189),
    (''Rf_qexp_x'', 190),
    (''Rf_qf_x'', 191),
    (''Rf_qgamma_x'', 192),
    (''Rf_qgeom_x'', 193),
    (''Rf_qhyper_x'', 194),
    (''Rf_qlnorm_x'', 195),
    (''Rf_qlogis_x'', 196),
    (''Rf_qnbeta_x'', 197),
    (''Rf_qnbinom_x'', 198),
    (''Rf_qnbinom_mu_x'', 199),
    (''Rf_qnchisq_x'', 200),
    (''Rf_qnf_x'', 201),
    (''Rf_qnorm_x'', 202),
    (''Rf_qnt_x'', 203),
    (''Rf_qpois_x'', 204),
    (''Rf_qsignrank_x'', 205),
    (''Rf_qt_x'', 206),
    (''Rf_qtukey_x'', 207),
    (''Rf_qunif_x'', 208),
    (''Rf_qweibull_x'', 209),
    (''Rf_qwilcox_x'', 210),
    (''Rf_rbeta_x'', 211),
    (''Rf_rbinom_x'', 212),
    (''Rf_rcauchy_x'', 213),
    (''Rf_rchisq_x'', 214),
    (''Rf_rexp_x'', 215),
    (''Rf_rf_x'', 216),
    (''Rf_rgamma_x'', 217),
    (''Rf_rgeom_x'', 218),
    (''Rf_rhyper_x'', 219),
    (''Rf_rlnorm_x'', 220),
    (''Rf_rlogis_x'', 221),
    (''Rf_rmultinom_x'', 222),
    (''Rf_rnbinom_x'', 223),
    (''Rf_rnbinom_mu_x'', 224),
    (''Rf_rnchisq_x'', 225),
    (''Rf_rnorm_x'', 226),
    (''Rf_rpois_x'', 227),
    (''Rf_rsignrank_x'', 228),
    (''Rf_rt_x'', 229),
    (''Rf_runif_x'', 230),
    (''Rf_rweibull_x'', 231),
    (''Rf_rwilcox_x'', 232),
    (''Rf_setAttrib_x'', 233),
    (''Rf_str2type_x'', 234),
    (''Rf_unprotect_x'', 235),
    (''Rf_unprotect_ptr_x'', 236),
    (''Rf_warning_x'', 237),
    (''Rf_warningcall_x'', 238),
    (''Rprintf_x'', 239),
    (''SETCAD4R_x'', 240),
    (''SETCADDDR_x'', 241),
    (''SETCADDR_x'', 242),
    (''SETCADR_x'', 243),
    (''SETCAR_x'', 244),
    (''SETCDR_x'', 245),
    (''SET_BODY_x'', 246),
    (''SET_CLOENV_x'', 247),
    (''SET_FORMALS_x'', 248),
    (''SET_NAMED_FASTR_x'', 249),
    (''SET_RDEBUG_x'', 250),
    (''SET_RSTEP_x'', 251),
    (''SET_S4_OBJECT_x'', 252),
    (''SET_STRING_ELT_x'', 253),
    (''SET_SYMVALUE_x'', 254),
    (''SET_TAG_x'', 255),
    (''SET_TYPEOF_FASTR_x'', 256),
    (''SET_VECTOR_ELT_x'', 257),
    (''STRING_ELT_x'', 258),
    (''SYMVALUE_x'', 259),
    (''TAG_x'', 260),
    (''TYPEOF_x'', 261),
    (''UNSET_S4_OBJECT_x'', 262),
    (''VECTOR_ELT_x'', 263),
    (''forceSymbols_x'', 264),
    (''getCCallable_x'', 265),
    (''getConnectionClassString_x'', 266),
    (''getEmbeddingDLLInfo_x'', 267),
    (''getOpenModeString_x'', 268),
    (''getSummaryDescription_x'', 269),
    (''isSeekable_x'', 270),
    (''octsize_x'', 271),
    (''registerCCallable_x'', 272),
    (''registerRoutines_x'', 273),
    (''restoreHandlerStacks_x'', 274),
    (''setDotSymbolValues_x'', 275),
    (''unif_rand_x'', 276),
    (''useDynamicSymbols_x'', 277)]"

definition UPCALLS_TABLE_SIZE :: nat where
  "UPCALLS_TABLE_SIZE = 278"

text \<open>The directives on lines \<open>a\<close> to \<open>b\<close> of the header, and the one on line \<open>k\<close>.\<close>

definition define_lines :: "nat \<Rightarrow> nat \<Rightarrow> macro_def list" where
  "define_lines a b = take (Suc b - a) (drop (a - 5) upcalls_index)"

definition define_line :: "nat \<Rightarrow> macro_def" where
  "define_line k = upcalls_index ! (k - 5)"

subsection \<open>Reading the table\<close>

text \<open>
  The slot values that the definitions of one name assign, in file order, and the names
  that are given one slot value, in file order.
\<close>

definition slots_of :: "string \<Rightarrow> macro_def list \<Rightarrow> nat list" where
  "slots_of n ds = map snd (filter (\<lambda>d. fst d = n) ds)"

definition names_at :: "nat \<Rightarrow> macro_def list \<Rightarrow> string list" where
  "names_at s ds = map fst (filter (\<lambda>d. snd d = s) ds)"

text \<open>The distinct names of a table: the upcall names it registers.\<close>

definition registered_names :: "macro_def list \<Rightarrow> string list" where
  "registered_names ds = remdups (map fst ds)"

text \<open>
  Every macro name of the table is the name of the upcall followed by \<^verbatim>\<open>_x\<close>;
  \<open>base_name\<close> removes these two characters.
\<close>

definition base_name :: "string \<Rightarrow> string" where
  "base_name n = take (length n - 2) n"

subsection \<open>The header as the C preprocessor reads it\<close>

text \<open>
  The preprocessor handles the directives in file order and keeps one replacement per
  macro name. A \<^verbatim>\<open>#define\<close> of a name that is defined already replaces the earlier
  value (compilers report the incompatible redefinition with a warning and go on), so
  the value a translation unit sees after including the header is that of the last
  definition.
\<close>

type_synonym macros = "string \<rightharpoonup> nat"

definition cpp_define :: "macros \<Rightarrow> macro_def \<Rightarrow> macros" where
  "cpp_define m d = m(fst d \<mapsto> snd d)"

definition cpp_run :: "macro_def list \<Rightarrow> macros" where
  "cpp_run ds = foldl cpp_define Map.empty ds"

subsection \<open>Generation passes\<close>

text \<open>
  The generator numbers the names of one pass consecutively. A pass of the table is
  therefore a maximal run of definitions in which every slot value is the previous one
  plus one; \<open>passes\<close> cuts a table into these runs.
\<close>

fun passes :: "macro_def list \<Rightarrow> macro_def list list" where
  "passes [] = []"
| "passes (d # ds) =
     (case passes ds of
        [] \<Rightarrow> [[d]]
      | p # ps \<Rightarrow>
          (case p of
             [] \<Rightarrow> [d] # ps
           | e # es \<Rightarrow> if snd e = Suc (snd d) then (d # p) # ps else [d] # p # ps))"

text \<open>
  A table \<open>q\<close> keeps the numbering of a table \<open>p\<close> when every name of \<open>p\<close> that \<open>q\<close>
  defines gets no other slot value in \<open>q\<close> than it has in \<open>p\<close>. For an earlier pass \<open>p\<close>
  and a later pass \<open>q\<close> this says that \<open>q\<close> renumbers nothing; for a table and itself it
  says that all definitions of a name give it the same slot value.
\<close>

definition keeps_slots :: "macro_def list \<Rightarrow> macro_def list \<Rightarrow> bool" where
  "keeps_slots p q = list_all (\<lambda>d. set (slots_of (fst d) q) \<subseteq> {snd d}) p"

text \<open>
  Merging two lists of names that are in ascending order, keeping one copy of a name
  that stands in both.
\<close>

fun merge_names :: "string list \<Rightarrow> string list \<Rightarrow> string list" where
  "merge_names [] ys = ys"
| "merge_names xs [] = xs"
| "merge_names (x # xs) (y # ys) =
     (if x < y then x # merge_names xs (y # ys)
      else if y < x then y # merge_names (x # xs) ys
      else x # merge_names xs ys)"

section \<open>The registry and the gateway of the specification\<close>

text \<open>
  The header is data only. The operations that the specification describes on it, the
  registration of a name and the dispatch through a slot, are not part of the source
  file; they are written down here from the specification's text.
\<close>

datatype failure = ConfigurationError | ABIViolation | MarshalingError | ManagedFailure

text \<open>
  Modelled from the spec: the Slot Registry's \<^verbatim>\<open>register\<close> (section 4.1), which the
  source does not contain. Registering a name with a declared slot binds a new name,
  is idempotent for a name that has this slot already, and fails with
  \<open>ConfigurationError\<close> for a name that is bound to another slot. A generation
  registers the definitions one after the other and stops at the first failure.
\<close>

definition register_spec :: "macros \<Rightarrow> macro_def \<Rightarrow> failure + macros" where
  "register_spec m d =
     (case m (fst d) of
        None \<Rightarrow> Inr (m(fst d \<mapsto> snd d))
      | Some s \<Rightarrow> if s = snd d then Inr m else Inl ConfigurationError)"

fun register_all_spec :: "macros \<Rightarrow> macro_def list \<Rightarrow> failure + macros" where
  "register_all_spec m [] = Inr m"
| "register_all_spec m (d # ds) =
     (case register_spec m d of
        Inl e \<Rightarrow> Inl e
      | Inr m' \<Rightarrow> register_all_spec m' ds)"

text \<open>
  Modelled from the spec: the Implementation Table and the Dispatch Gateway's
  \<^verbatim>\<open>invoke(slot, argBuffer, ctx)\<close> (sections 4.2, 4.3, 4.4 and 7), which the source does
  not contain. An entry holds the arity of its signature, the marshaler's decoder for
  one argument and the managed implementation, which may fail. The table has one
  optional entry per slot; \<^verbatim>\<open>size()\<close> is its length. \<open>invoke\<close> checks the slot against
  the size first (\<open>ABIViolation\<close>), then looks the entry up (an unbound slot is a
  \<open>ConfigurationError\<close>), checks the argument count against the signature
  (\<open>ABIViolation\<close>), decodes the arguments (\<open>MarshalingError\<close>) and calls the
  implementation (\<open>ManagedFailure\<close> when it fails).
\<close>

record ('w, 'a, 'r) ImplementationEntry =
  arity :: nat
  decode :: "'w \<Rightarrow> 'a option"
  callable :: "'a list \<Rightarrow> 'r option"

type_synonym ('w, 'a, 'r) implementation_table = "('w, 'a, 'r) ImplementationEntry option list"

definition table_size :: "('w, 'a, 'r) implementation_table \<Rightarrow> nat" where
  "table_size tbl = length tbl"

definition invoke ::
  "('w, 'a, 'r) implementation_table \<Rightarrow> nat \<Rightarrow> 'w list \<Rightarrow> 'c \<Rightarrow> failure + 'r" where
  "invoke tbl slot argBuffer ctx =
     (if table_size tbl \<le> slot then Inl ABIViolation
      else
        (case tbl ! slot of
           None \<Rightarrow> Inl ConfigurationError
         | Some e \<Rightarrow>
             if length argBuffer \<noteq> arity e then Inl ABIViolation
             else
               (case those (map (decode e) argBuffer) of
                  None \<Rightarrow> Inl MarshalingError
                | Some args \<Rightarrow>
                    (case callable e args of
                       None \<Rightarrow> Inl ManagedFailure
                     | Some r \<Rightarrow> Inr r))))"

text \<open>A sequence of calls through the gateway; the table does not change between them.\<close>

definition invoke_all ::
  "('w, 'a, 'r) implementation_table \<Rightarrow> (nat \<times> 'w list \<times> 'c) list \<Rightarrow> (failure + 'r) list" where
  "invoke_all tbl calls = map (\<lambda>(slot, argBuffer, ctx). invoke tbl slot argBuffer ctx) calls"

section \<open>Basic facts about the table\<close>

lemma upcalls_index_length: "length upcalls_index = 388"
  unfolding upcalls_index_def by simp

lemma define_lines_all: "define_lines 5 392 = upcalls_index"
  by (simp add: define_lines_def upcalls_index_length)

lemma define_lines_split:
  assumes "5 \<le> a" "a \<le> Suc m" "m \<le> b"
  shows "define_lines a b = define_lines a m @ define_lines (Suc m) b"
proof -
  have n: "Suc b - a = (Suc m - a) + (b - m)"
    using assms by simp
  have d: "Suc m - a + (a - 5) = Suc m - 5"
    using assms by simp
  show ?thesis
    unfolding define_lines_def n take_add drop_drop d by simp
qed

lemma define_line_in_lines:
  assumes "5 \<le> a" "a \<le> k" "k \<le> b" "b \<le> 392"
  shows "define_line k \<in> set (define_lines a b)"
proof -
  have len: "length (define_lines a b) = Suc b - a"
    using assms by (simp add: define_lines_def upcalls_index_length)
  have "define_lines a b ! (k - a) = define_line k"
    using assms by (simp add: define_lines_def define_line_def upcalls_index_length)
  moreover have "k - a < length (define_lines a b)"
    using assms len by simp
  ultimately show ?thesis
    by (metis nth_mem)
qed

subsection \<open>Scanning the table\<close>

text \<open>
  The scans below run over all 388 definitions. Their step rules are stated with a
  premise instead of a conditional, one rule per outcome of the test.
\<close>

lemma slots_of_Nil: "slots_of n [] = []"
  by (simp add: slots_of_def)

lemma slots_of_hit: "m = n \<Longrightarrow> slots_of n ((m, s) # ds) = s # slots_of n ds"
  by (simp add: slots_of_def)

lemma slots_of_miss: "m \<noteq> n \<Longrightarrow> slots_of n ((m, s) # ds) = slots_of n ds"
  by (simp add: slots_of_def)

lemmas slots_of_eval = slots_of_Nil slots_of_hit slots_of_miss

lemma names_at_Nil: "names_at s [] = []"
  by (simp add: names_at_def)

lemma names_at_hit: "t = s \<Longrightarrow> names_at s ((n, t) # ds) = n # names_at s ds"
  by (simp add: names_at_def)

lemma names_at_miss: "t \<noteq> s \<Longrightarrow> names_at s ((n, t) # ds) = names_at s ds"
  by (simp add: names_at_def)

lemmas names_at_eval = names_at_Nil names_at_hit names_at_miss

lemma set_slots_of: "set (slots_of n ds) = {s. (n, s) \<in> set ds}"
  by (auto simp: slots_of_def image_iff)

lemma set_names_at: "set (names_at s ds) = {n. (n, s) \<in> set ds}"
  by (auto simp: names_at_def image_iff)

lemma slots_Rf_asChar: "slots_of ''Rf_asChar_x'' upcalls_index = [103, 103, 102]"
  unfolding upcalls_index_def by (simp add: slots_of_eval)

lemma slots_Rf_any_duplicated3: "slots_of ''Rf_any_duplicated3_x'' upcalls_index = [102, 102]"
  unfolding upcalls_index_def by (simp add: slots_of_eval)

lemma names_at_102:
  "names_at 102 upcalls_index =
     [''Rf_any_duplicated3_x'', ''Rf_any_duplicated3_x'', ''Rf_asChar_x'']"
  unfolding upcalls_index_def by (simp add: names_at_eval)

lemma names_at_186:
  "names_at 186 upcalls_index = [''isSeekable_x'', ''isSeekable_x'', ''Rf_qbeta_x'']"
  unfolding upcalls_index_def by (simp add: names_at_eval)

lemma define_line_108: "define_line 108 = (''Rf_asChar_x'', 103)"
  unfolding define_line_def upcalls_index_def by simp

lemma define_line_217: "define_line 217 = (''Rf_asChar_x'', 102)"
  unfolding define_line_def upcalls_index_def by simp

lemma define_line_191: "define_line 191 = (''isSeekable_x'', 186)"
  unfolding define_line_def upcalls_index_def by simp

lemma define_line_385: "define_line 385 = (''isSeekable_x'', 270)"
  unfolding define_line_def upcalls_index_def by simp

text \<open>The slot values of the table in file order: four runs of consecutive numbers.\<close>

lemma slot_values:
  "map snd upcalls_index = [0..<194] @ [102..<112] @ [186..<194] @ [102..<278]"
  unfolding upcalls_index_def by (simp add: upt_rec)

lemma slot_value_set: "snd ` set upcalls_index = {0..<278}"
proof -
  have "snd ` set upcalls_index = set (map snd upcalls_index)"
    by simp
  also have "\<dots> = {0..<194} \<union> {102..<112} \<union> {186..<194} \<union> {102..<278}"
    unfolding slot_values by (simp only: set_append set_upt Un_assoc)
  also have "\<dots> = {0..<278}"
    by auto
  finally show ?thesis .
qed

subsection \<open>The four runs of the table\<close>

lemma length_define_lines:
  "5 \<le> a \<Longrightarrow> b \<le> 392 \<Longrightarrow> length (define_lines a b) = Suc b - a"
  by (simp add: define_lines_def upcalls_index_length)

lemma upcalls_index_segments:
  "upcalls_index =
     define_lines 5 198 @ define_lines 199 208 @ define_lines 209 216 @ define_lines 217 392"
proof -
  have "define_lines 5 392 = define_lines 5 198 @ define_lines 199 392"
    using define_lines_split [of 5 198 392] by simp
  also have "define_lines 199 392 = define_lines 199 208 @ define_lines 209 392"
    using define_lines_split [of 199 208 392] by simp
  also have "define_lines 209 392 = define_lines 209 216 @ define_lines 217 392"
    using define_lines_split [of 209 216 392] by simp
  finally show ?thesis
    by (simp add: define_lines_all)
qed

lemma lines_5_198_slots: "map snd (define_lines 5 198) = [0..<194]"
  unfolding define_lines_def upcalls_index_def by (simp add: upt_rec)

lemma lines_199_208_slots: "map snd (define_lines 199 208) = [102..<112]"
  unfolding define_lines_def upcalls_index_def by (simp add: upt_rec)

lemma lines_209_216_slots: "map snd (define_lines 209 216) = [186..<194]"
  unfolding define_lines_def upcalls_index_def by (simp add: upt_rec)

lemma lines_217_392_slots: "map snd (define_lines 217 392) = [102..<278]"
  unfolding define_lines_def upcalls_index_def by (simp add: upt_rec)

text \<open>A pass always starts with the first definition of the table it is cut from.\<close>

lemma passes_Cons_shape: "\<exists>es ps. passes (e # ds) = (e # es) # ps"
  by (simp split: list.split)

text \<open>
  A run of consecutive slot values that the next definition does not continue is the
  first pass of the table.
\<close>

lemma passes_run:
  assumes "map snd p = [k..<k + length p]" and "p \<noteq> []"
    and "rest = [] \<or> hd (map snd rest) \<noteq> k + length p"
  shows "passes (p @ rest) = p # passes rest"
  using assms
proof (induction p arbitrary: k)
  case Nil
  then show ?case by simp
next
  case (Cons d p)
  have k: "snd d = k"
    using Cons.prems(1) by (simp add: upt_rec)
  show ?case
  proof (cases p)
    case Nil
    show ?thesis
    proof (cases rest)
      case Nil
      with \<open>p = []\<close> show ?thesis by simp
    next
      case (Cons e es)
      obtain qs ps where q: "passes (e # es) = (e # qs) # ps"
        using passes_Cons_shape by blast
      have "snd e \<noteq> Suc (snd d)"
        using Cons.prems(3) \<open>p = []\<close> \<open>rest = e # es\<close> k by simp
      then show ?thesis
        using \<open>p = []\<close> \<open>rest = e # es\<close> q by simp
    qed
  next
    case (Cons d' p')
    have tl: "map snd p = [Suc k..<Suc k + length p]"
      using Cons.prems(1) by (simp add: upt_rec)
    have "rest = [] \<or> hd (map snd rest) \<noteq> Suc k + length p"
      using Cons.prems(3) by simp
    with tl have IH: "passes (p @ rest) = p # passes rest"
      using Cons.IH [of "Suc k"] \<open>p = d' # p'\<close> by simp
    have "snd d' = Suc k"
      using tl \<open>p = d' # p'\<close> by (simp add: upt_rec)
    then show ?thesis
      using IH \<open>p = d' # p'\<close> k by simp
  qed
qed

text \<open>
  The table has four passes: lines 5 to 198 (slots 0 to 193), lines 199 to 208 (slots
  102 to 111), lines 209 to 216 (slots 186 to 193) and lines 217 to 392 (slots 102 to
  277).
\<close>

lemma passes_upcalls_index:
  "passes upcalls_index =
     [define_lines 5 198, define_lines 199 208, define_lines 209 216, define_lines 217 392]"
proof -
  have ne: "define_lines 5 198 \<noteq> []" "define_lines 199 208 \<noteq> []"
    "define_lines 209 216 \<noteq> []" "define_lines 217 392 \<noteq> []"
    using length_define_lines [of 5 198] length_define_lines [of 199 208]
      length_define_lines [of 209 216] length_define_lines [of 217 392] by auto
  have p4: "passes (define_lines 217 392) = [define_lines 217 392]"
    using passes_run [of "define_lines 217 392" 102 "[]"] ne
    by (simp add: lines_217_392_slots length_define_lines)
  have p3: "passes (define_lines 209 216 @ define_lines 217 392) =
      define_lines 209 216 # passes (define_lines 217 392)"
    by (rule passes_run [where k = 186])
      (simp_all add: ne lines_209_216_slots lines_217_392_slots length_define_lines upt_rec)
  have p2: "passes (define_lines 199 208 @ define_lines 209 216 @ define_lines 217 392) =
      define_lines 199 208 # passes (define_lines 209 216 @ define_lines 217 392)"
    by (rule passes_run [where k = 102])
      (simp_all add: ne lines_199_208_slots lines_209_216_slots length_define_lines upt_rec)
  have p1: "passes (define_lines 5 198 @ define_lines 199 208 @ define_lines 209 216
        @ define_lines 217 392) =
      define_lines 5 198 # passes (define_lines 199 208 @ define_lines 209 216
        @ define_lines 217 392)"
    by (rule passes_run [where k = 0])
      (simp_all add: ne lines_5_198_slots lines_199_208_slots length_define_lines upt_rec)
  show ?thesis
    by (subst upcalls_index_segments) (simp only: p1 p2 p3 p4)
qed

subsection \<open>The order of the names\<close>

lemma transp_less_string: "transp ((<) :: string \<Rightarrow> string \<Rightarrow> bool)"
  by (rule transpI) (rule less_trans)

lemma lines_5_198_base_names:
  "successively (<) (map (base_name \<circ> fst) (define_lines 5 198))"
  unfolding define_lines_def upcalls_index_def by (simp add: base_name_def)

lemma lines_217_392_base_names:
  "successively (<) (map (base_name \<circ> fst) (define_lines 217 392))"
  unfolding define_lines_def upcalls_index_def by (simp add: base_name_def)

lemma lines_5_198_names: "\<not> successively (<) (map fst (define_lines 5 198))"
  unfolding define_lines_def upcalls_index_def by simp

lemma lines_52_53_names: "map fst (define_lines 52 53) = [''R_Home_x'', ''R_HomeDir_x'']"
  unfolding define_lines_def upcalls_index_def by simp

lemma define_line_198: "define_line 198 = (''useDynamicSymbols_x'', 193)"
  unfolding define_line_def upcalls_index_def by simp

lemma define_line_392: "define_line 392 = (''useDynamicSymbols_x'', 277)"
  unfolding define_line_def upcalls_index_def by simp

lemma lines_217_392_useDynamicSymbols:
  "slots_of ''useDynamicSymbols_x'' (define_lines 217 392) = [277]"
  unfolding define_lines_def upcalls_index_def by (simp add: slots_of_eval)

subsection \<open>The macro table after the header\<close>

lemma cpp_run_snoc: "cpp_run (ds @ [d]) = cpp_define (cpp_run ds) d"
  by (simp add: cpp_run_def)

text \<open>The value of a macro after a run of definitions is that of its last definition.\<close>

lemma cpp_run_slots_of:
  "cpp_run ds n = (if slots_of n ds = [] then None else Some (last (slots_of n ds)))"
proof (induction ds rule: rev_induct)
  case Nil
  show ?case by (simp add: cpp_run_def slots_of_def)
next
  case (snoc d ds)
  show ?case
  proof (cases "fst d = n")
    case True
    then show ?thesis
      by (simp add: cpp_run_snoc cpp_define_def slots_of_def)
  next
    case False
    then show ?thesis
      using snoc.IH by (simp add: cpp_run_snoc cpp_define_def slots_of_def)
  qed
qed

subsection \<open>The distinct names of the table\<close>

lemma set_merge_names: "set (merge_names xs ys) = set xs \<union> set ys"
  by (induction xs ys rule: merge_names.induct) auto

lemma sorted_merge_names:
  "sorted_wrt (<) xs \<Longrightarrow> sorted_wrt (<) ys \<Longrightarrow> sorted_wrt (<) (merge_names xs ys)"
proof (induction xs ys rule: merge_names.induct)
  case (1 ys)
  then show ?case by simp
next
  case (2 x xs)
  then show ?case by simp
next
  case (3 x xs y ys)
  show ?case
  proof (cases "x < y")
    case True
    with 3 show ?thesis
      by (auto simp: set_merge_names intro: less_trans)
  next
    case False
    show ?thesis
    proof (cases "y < x")
      case True
      with False 3 show ?thesis
        by (auto simp: set_merge_names intro: less_trans)
    next
      case nlt: False
      with False have "x = y" by simp
      with False nlt 3 show ?thesis
        by (auto simp: set_merge_names)
    qed
  qed
qed

lemma merge_names_lt: "x < y \<Longrightarrow> merge_names (x # xs) (y # ys) = x # merge_names xs (y # ys)"
  by simp

lemma merge_names_gt: "y < x \<Longrightarrow> merge_names (x # xs) (y # ys) = y # merge_names (x # xs) ys"
  by (auto dest: less_asym)

lemma merge_names_eq: "merge_names (x # xs) (x # ys) = x # merge_names xs ys"
  by simp

lemma merged_base_names_length:
  "length (merge_names (map (base_name \<circ> fst) (define_lines 5 198))
     (map (base_name \<circ> fst) (define_lines 217 392))) = 279"
  unfolding define_lines_def upcalls_index_def
  by (simp add: base_name_def merge_names_lt merge_names_gt merge_names_eq
      del: merge_names.simps(3))

lemma names_end_in_x: "list_all (\<lambda>d. fst d = base_name (fst d) @ ''_x'') upcalls_index"
  unfolding upcalls_index_def by (simp add: base_name_def)

text \<open>Lines 199 to 208 repeat lines 107 to 116, and lines 209 to 216 repeat lines 191 to 198.\<close>

lemma lines_199_208_repeat: "define_lines 199 208 = define_lines 107 116"
  unfolding define_lines_def upcalls_index_def by simp

lemma lines_209_216_repeat: "define_lines 209 216 = define_lines 191 198"
  unfolding define_lines_def upcalls_index_def by simp

lemma upcalls_index_first_and_last_pass:
  "set upcalls_index = set (define_lines 5 198) \<union> set (define_lines 217 392)"
proof -
  have "define_lines 5 198 = define_lines 5 106 @ define_lines 107 198"
    using define_lines_split [of 5 106 198] by simp
  also have "define_lines 107 198 = define_lines 107 116 @ define_lines 117 198"
    using define_lines_split [of 107 116 198] by simp
  finally have a: "set (define_lines 107 116) \<subseteq> set (define_lines 5 198)"
    by auto
  have "define_lines 5 198 = define_lines 5 190 @ define_lines 191 198"
    using define_lines_split [of 5 190 198] by simp
  then have b: "set (define_lines 191 198) \<subseteq> set (define_lines 5 198)"
    by auto
  have "set upcalls_index = set (define_lines 5 198) \<union> set (define_lines 107 116)
      \<union> set (define_lines 191 198) \<union> set (define_lines 217 392)"
    by (subst upcalls_index_segments)
      (simp add: lines_199_208_repeat lines_209_216_repeat Un_assoc)
  with a b show ?thesis
    by auto
qed

lemma inj_on_base_name: "inj_on base_name (fst ` set upcalls_index)"
proof (rule inj_on_inverseI)
  fix n
  assume "n \<in> fst ` set upcalls_index"
  then show "(\<lambda>b. b @ ''_x'') (base_name n) = n"
    using names_end_in_x by (auto simp: list_all_iff)
qed

lemma card_names: "card (fst ` set upcalls_index) = 279"
proof -
  let ?B1 = "map (base_name \<circ> fst) (define_lines 5 198)"
  let ?B4 = "map (base_name \<circ> fst) (define_lines 217 392)"
  have "sorted_wrt (<) ?B1" "sorted_wrt (<) ?B4"
    using lines_5_198_base_names lines_217_392_base_names
    by (simp_all add: successively_conv_sorted_wrt [OF transp_less_string])
  then have "sorted_wrt (<) (merge_names ?B1 ?B4)"
    by (rule sorted_merge_names)
  then have "distinct (merge_names ?B1 ?B4)"
    by (simp add: strict_sorted_iff)
  then have "card (set (merge_names ?B1 ?B4)) = 279"
    by (simp add: distinct_card merged_base_names_length)
  moreover have "base_name ` fst ` set upcalls_index = set (merge_names ?B1 ?B4)"
    by (simp add: upcalls_index_first_and_last_pass set_merge_names image_Un image_comp)
  ultimately have "card (base_name ` fst ` set upcalls_index) = 279"
    by simp
  then show ?thesis
    by (simp add: card_image [OF inj_on_base_name])
qed

subsection \<open>Registration with conflict detection\<close>

lemma register_spec_Inr:
  "register_spec m d = Inr m' \<Longrightarrow> m \<subseteq>\<^sub>m m' \<and> m' (fst d) = Some (snd d)"
  by (auto simp: register_spec_def map_le_def split: option.splits if_splits)

lemma register_spec_Inl: "register_spec m d = Inl e \<Longrightarrow> e = ConfigurationError"
  by (auto simp: register_spec_def split: option.splits if_splits)

text \<open>A generation that succeeds has bound every name to the slot of each of its definitions.\<close>

lemma register_all_spec_Inr:
  "register_all_spec m ds = Inr m' \<Longrightarrow>
     m \<subseteq>\<^sub>m m' \<and> (\<forall>d \<in> set ds. m' (fst d) = Some (snd d))"
proof (induction ds arbitrary: m)
  case Nil
  then show ?case by simp
next
  case (Cons d ds)
  from Cons.prems obtain m1 where
    step: "register_spec m d = Inr m1" and rest: "register_all_spec m1 ds = Inr m'"
    by (auto split: sum.splits)
  from Cons.IH [OF rest] have sub: "m1 \<subseteq>\<^sub>m m'"
    and all: "\<forall>d \<in> set ds. m' (fst d) = Some (snd d)"
    by simp_all
  from register_spec_Inr [OF step] have "m \<subseteq>\<^sub>m m1" and here: "m1 (fst d) = Some (snd d)"
    by simp_all
  from \<open>m \<subseteq>\<^sub>m m1\<close> sub have "m \<subseteq>\<^sub>m m'"
    by (rule map_le_trans)
  moreover from here sub have "m' (fst d) = Some (snd d)"
    by (metis domI map_le_def)
  ultimately show ?case
    using all by simp
qed

lemma register_all_spec_Inl: "register_all_spec m ds = Inl e \<Longrightarrow> e = ConfigurationError"
proof (induction ds arbitrary: m)
  case Nil
  then show ?case by simp
next
  case (Cons d ds)
  then show ?case
    by (auto split: sum.splits dest: register_spec_Inl)
qed

lemma register_all_spec_conflict:
  assumes "(n, s) \<in> set ds" "(n, t) \<in> set ds" "s \<noteq> t"
  shows "register_all_spec m ds = Inl ConfigurationError"
proof (cases "register_all_spec m ds")
  case (Inl e)
  then show ?thesis
    using register_all_spec_Inl by blast
next
  case (Inr m')
  from register_all_spec_Inr [OF Inr] assms(1,2) have "m' n = Some s" "m' n = Some t"
    by force+
  with assms(3) show ?thesis by simp
qed

lemma define_lines_single: "5 \<le> k \<Longrightarrow> k \<le> 392 \<Longrightarrow> define_lines k k = [define_line k]"
  by (simp add: define_lines_def define_line_def upcalls_index_length
      take_Suc_conv_app_nth)

lemma lines_5_216_Rf_asChar: "slots_of ''Rf_asChar_x'' (define_lines 5 216) = [103, 103]"
  unfolding define_lines_def upcalls_index_def by (simp add: slots_of_eval)

subsection \<open>The bounds check of the gateway\<close>

lemma invoke_out_of_range:
  "table_size tbl \<le> slot \<Longrightarrow> invoke tbl slot argBuffer ctx = Inl ABIViolation"
  by (simp add: invoke_def)

section \<open>The claims\<close>

text \<open>
  C1. Claimed: all definitions of one name in the header give it the same slot value.
  The header does not have this property. \<^verbatim>\<open>Rf_asChar_x\<close> is defined three times:
  lines 108 and 200 give it 103, line 217 gives it 102.
\<close>

theorem C1_Rf_asChar_defined_with_two_slots:
  "define_line 108 = (''Rf_asChar_x'', 103) \<and>
   define_line 217 = (''Rf_asChar_x'', 102) \<and>
   slots_of ''Rf_asChar_x'' upcalls_index = [103, 103, 102] \<and>
   \<not> keeps_slots upcalls_index upcalls_index"
proof -
  have "define_line 108 \<in> set (define_lines 5 392)"
    by (simp add: define_line_in_lines)
  then have "define_line 108 \<in> set upcalls_index"
    by (simp add: define_lines_all)
  moreover have
    "\<not> set (slots_of (fst (define_line 108)) upcalls_index) \<subseteq> {snd (define_line 108)}"
    by (simp add: define_line_108 slots_Rf_asChar)
  ultimately have "\<not> keeps_slots upcalls_index upcalls_index"
    unfolding keeps_slots_def list_all_iff by blast
  then show ?thesis
    by (simp only: define_line_108 define_line_217 slots_Rf_asChar simp_thms)
qed

text \<open>
  C2. Claimed: \<open>UPCALLS_TABLE_SIZE\<close> is the number of distinct names of the table.
  The header does not have this property: it defines 279 distinct names, and
  \<open>UPCALLS_TABLE_SIZE\<close> is 278.
\<close>

theorem C2_more_names_than_slots:
  "length (registered_names upcalls_index) = 279 \<and> UPCALLS_TABLE_SIZE = 278"
proof -
  have "length (registered_names upcalls_index) = card (set (map fst upcalls_index))"
    by (simp add: registered_names_def length_remdups_card_conv)
  then show ?thesis
    by (simp add: card_names UPCALLS_TABLE_SIZE_def)
qed

text \<open>
  C3. Claimed: registering a name again with another slot fails with
  \<open>ConfigurationError\<close>, and the last definition never wins. In the header the last
  definition wins: after lines 5 to 216 the macro \<^verbatim>\<open>Rf_asChar_x\<close> is 103, line 217
  defines it as 102, and after line 217 it is 102. The registration of the
  specification fails at this definition, and so fails on the table as a whole.
\<close>

theorem C3_redefinition_accepted_last_wins:
  "cpp_run (define_lines 5 216) ''Rf_asChar_x'' = Some 103 \<and>
   define_line 217 = (''Rf_asChar_x'', 102) \<and>
   cpp_run (define_lines 5 217) = cpp_define (cpp_run (define_lines 5 216)) (define_line 217) \<and>
   cpp_run (define_lines 5 217) ''Rf_asChar_x'' = Some 102 \<and>
   register_spec (cpp_run (define_lines 5 216)) (define_line 217) = Inl ConfigurationError \<and>
   register_all_spec Map.empty upcalls_index = Inl ConfigurationError"
proof -
  have a: "cpp_run (define_lines 5 216) ''Rf_asChar_x'' = Some 103"
    by (simp add: cpp_run_slots_of lines_5_216_Rf_asChar)
  have "define_lines 5 217 = define_lines 5 216 @ define_lines 217 217"
    using define_lines_split [of 5 216 217] by simp
  then have b: "cpp_run (define_lines 5 217) =
      cpp_define (cpp_run (define_lines 5 216)) (define_line 217)"
    by (simp add: define_lines_single cpp_run_snoc)
  have c: "cpp_run (define_lines 5 217) ''Rf_asChar_x'' = Some 102"
    unfolding b by (simp add: define_line_217 cpp_define_def)
  have d: "register_spec (cpp_run (define_lines 5 216)) (define_line 217) =
      Inl ConfigurationError"
    by (simp add: register_spec_def define_line_217 a)
  have "define_line 108 \<in> set (define_lines 5 392)" "define_line 217 \<in> set (define_lines 5 392)"
    by (simp_all add: define_line_in_lines)
  then have "(''Rf_asChar_x'', 103) \<in> set upcalls_index"
    "(''Rf_asChar_x'', 102) \<in> set upcalls_index"
    by (simp_all add: define_lines_all define_line_108 define_line_217)
  then have e: "register_all_spec Map.empty upcalls_index = Inl ConfigurationError"
    by (rule register_all_spec_conflict) simp
  from a b c d e show ?thesis
    by (simp only: define_line_217 simp_thms)
qed

text \<open>
  C4, as stated: some name is assigned slot 102 by one definition and slot 186 by
  another. No name of the table is: 102 is given to \<^verbatim>\<open>Rf_any_duplicated3_x\<close> and
  \<^verbatim>\<open>Rf_asChar_x\<close> only, 186 to \<^verbatim>\<open>isSeekable_x\<close> and \<^verbatim>\<open>Rf_qbeta_x\<close> only.
\<close>

theorem C4_no_name_with_102_and_186:
  "\<not> (\<exists>n. (n, 102) \<in> set upcalls_index \<and> (n, 186) \<in> set upcalls_index)"
proof
  assume "\<exists>n. (n, 102) \<in> set upcalls_index \<and> (n, 186) \<in> set upcalls_index"
  then obtain n where
    "n \<in> set (names_at 102 upcalls_index)" "n \<in> set (names_at 186 upcalls_index)"
    by (auto simp: set_names_at)
  then show False
    unfolding names_at_102 names_at_186 by auto
qed

text \<open>
  C4, amended: the table defines a name again with a different slot value in a later
  pass. \<^verbatim>\<open>isSeekable_x\<close> has slot 186 on line 191, in the pass of lines 5 to 198, and
  slot 270 on line 385, in the pass of lines 217 to 392; \<^verbatim>\<open>Rf_asChar_x\<close> has slot 103
  on line 108 and slot 102 on line 217.
\<close>

theorem C4_redefined_with_other_slot:
  "define_line 191 = (''isSeekable_x'', 186) \<and>
   define_line 385 = (''isSeekable_x'', 270) \<and>
   define_line 108 = (''Rf_asChar_x'', 103) \<and>
   define_line 217 = (''Rf_asChar_x'', 102) \<and>
   {define_line 191, define_line 108} \<subseteq> set (define_lines 5 198) \<and>
   {define_line 385, define_line 217} \<subseteq> set (define_lines 217 392) \<and>
   (\<exists>n s t. s \<noteq> t \<and> (n, s) \<in> set upcalls_index \<and> (n, t) \<in> set upcalls_index)"
proof -
  have p1: "{define_line 191, define_line 108} \<subseteq> set (define_lines 5 198)"
    by (simp add: define_line_in_lines)
  have p4: "{define_line 385, define_line 217} \<subseteq> set (define_lines 217 392)"
    by (simp add: define_line_in_lines)
  have "define_line 191 \<in> set (define_lines 5 392)" "define_line 385 \<in> set (define_lines 5 392)"
    by (simp_all add: define_line_in_lines)
  then have "(''isSeekable_x'', 186) \<in> set upcalls_index" "(''isSeekable_x'', 270) \<in> set upcalls_index"
    by (simp_all add: define_lines_all define_line_191 define_line_385)
  moreover have "(186::nat) \<noteq> 270"
    by simp
  ultimately have
    "\<exists>n s t. s \<noteq> t \<and> (n, s) \<in> set upcalls_index \<and> (n, t) \<in> set upcalls_index"
    by blast
  with p1 p4 show ?thesis
    by (simp only: define_line_191 define_line_385 define_line_108 define_line_217 simp_thms)
qed

text \<open>
  C5. The slot values that the table defines are exactly the numbers below
  \<open>UPCALLS_TABLE_SIZE\<close>: each of them is the value of some definition, and no
  definition has a value outside this range.
\<close>

theorem C5_slots_fill_the_range:
  "(\<forall>s. s < UPCALLS_TABLE_SIZE \<longrightarrow> (\<exists>n. (n, s) \<in> set upcalls_index)) \<and>
   (\<forall>n s. (n, s) \<in> set upcalls_index \<longrightarrow> s < UPCALLS_TABLE_SIZE)"
proof (intro conjI allI impI)
  fix s
  assume "s < UPCALLS_TABLE_SIZE"
  then have "s \<in> snd ` set upcalls_index"
    by (simp add: slot_value_set UPCALLS_TABLE_SIZE_def)
  then show "\<exists>n. (n, s) \<in> set upcalls_index"
    by force
next
  fix n s
  assume "(n, s) \<in> set upcalls_index"
  then have "s \<in> snd ` set upcalls_index"
    by force
  then show "s < UPCALLS_TABLE_SIZE"
    by (simp add: slot_value_set UPCALLS_TABLE_SIZE_def)
qed

theorem C5_slots_fill_the_range_witness:
  "(102::nat) < UPCALLS_TABLE_SIZE \<and> (\<exists>n. (n, 102) \<in> set upcalls_index) \<and>
   define_line 385 \<in> set upcalls_index \<and> snd (define_line 385) < UPCALLS_TABLE_SIZE"
proof -
  have a: "(102::nat) < UPCALLS_TABLE_SIZE"
    by (simp add: UPCALLS_TABLE_SIZE_def)
  have "define_line 385 \<in> set (define_lines 5 392)"
    by (simp add: define_line_in_lines)
  then have b: "(''isSeekable_x'', 270) \<in> set upcalls_index"
    by (simp add: define_lines_all define_line_385)
  from a b C5_slots_fill_the_range show ?thesis
    unfolding define_line_385 by auto
qed

text \<open>
  C6. Claimed: a name that a later pass of the table defines again keeps its slot
  value. The header does not have this property. \<^verbatim>\<open>useDynamicSymbols_x\<close> has slot 193
  on line 198, at the end of the first pass, and slot 277 on line 392, at the end of
  the last pass.
\<close>

theorem C6_last_pass_renumbers:
  "passes upcalls_index =
     [define_lines 5 198, define_lines 199 208, define_lines 209 216, define_lines 217 392] \<and>
   define_line 198 = (''useDynamicSymbols_x'', 193) \<and>
   define_line 392 = (''useDynamicSymbols_x'', 277) \<and>
   \<not> keeps_slots (define_lines 5 198) (define_lines 217 392)"
proof -
  have "define_line 198 \<in> set (define_lines 5 198)"
    by (simp add: define_line_in_lines)
  moreover have
    "\<not> set (slots_of (fst (define_line 198)) (define_lines 217 392)) \<subseteq> {snd (define_line 198)}"
    by (simp add: define_line_198 lines_217_392_useDynamicSymbols)
  ultimately have "\<not> keeps_slots (define_lines 5 198) (define_lines 217 392)"
    unfolding keeps_slots_def list_all_iff by blast
  then show ?thesis
    by (simp only: passes_upcalls_index define_line_198 define_line_392 simp_thms)
qed

text \<open>
  C7. A call through the gateway with a slot that is not below the size of the table
  returns \<open>ABIViolation\<close>, whatever the table holds and whatever the argument buffer
  and the context are; the bounds check comes first, so that no entry is read. A
  sequence of such calls returns \<open>ABIViolation\<close> for each of them.
\<close>

theorem C7_out_of_range_slot_is_ABIViolation:
  "(table_size tbl \<le> slot \<longrightarrow> invoke tbl slot argBuffer ctx = Inl ABIViolation) \<and>
   ((\<forall>c \<in> set calls. table_size tbl \<le> fst c) \<longrightarrow>
      invoke_all tbl calls = replicate (length calls) (Inl ABIViolation))"
proof (intro conjI impI)
  assume "table_size tbl \<le> slot"
  then show "invoke tbl slot argBuffer ctx = Inl ABIViolation"
    by (rule invoke_out_of_range)
next
  assume "\<forall>c \<in> set calls. table_size tbl \<le> fst c"
  then show "invoke_all tbl calls = replicate (length calls) (Inl ABIViolation)"
  proof (induction calls)
    case Nil
    show ?case by (simp add: invoke_all_def)
  next
    case (Cons c calls)
    obtain slot' args' ctx' where c: "c = (slot', args', ctx')"
      by (cases c) auto
    from Cons have "invoke_all tbl calls = replicate (length calls) (Inl ABIViolation)"
      by simp
    moreover from Cons.prems c have "invoke tbl slot' args' ctx' = Inl ABIViolation"
      by (simp add: invoke_out_of_range)
    ultimately show ?case
      by (simp add: invoke_all_def c)
  qed
qed

theorem C7_out_of_range_slot_is_ABIViolation_witness:
  "table_size (replicate UPCALLS_TABLE_SIZE (None :: (nat, nat, nat) ImplementationEntry option))
     = 278 \<and>
   invoke (replicate UPCALLS_TABLE_SIZE (None :: (nat, nat, nat) ImplementationEntry option))
     278 [7, 8] () = Inl ABIViolation \<and>
   invoke_all (replicate UPCALLS_TABLE_SIZE (None :: (nat, nat, nat) ImplementationEntry option))
     [(278, [], ()), (300, [1], ())] = [Inl ABIViolation, Inl ABIViolation]"
proof -
  let ?tbl = "replicate UPCALLS_TABLE_SIZE (None :: (nat, nat, nat) ImplementationEntry option)"
  have s: "table_size ?tbl = 278"
    by (simp add: table_size_def UPCALLS_TABLE_SIZE_def)
  have "\<forall>c \<in> set [(278, [], ()), (300, [1::nat], ())]. table_size ?tbl \<le> fst c"
    by (simp add: s)
  with s
    C7_out_of_range_slot_is_ABIViolation
      [of ?tbl 278 "[7, 8]" "()" "[(278, [], ()), (300, [1], ())]"]
  show ?thesis
    by simp
qed

text \<open>
  C8. After the header the macros \<^verbatim>\<open>Rf_any_duplicated3_x\<close> and \<^verbatim>\<open>Rf_asChar_x\<close> both
  have the value 102: the mapping from names to slots that the last definitions give
  is not injective.
\<close>

theorem C8_last_definitions_not_injective:
  "cpp_run upcalls_index ''Rf_any_duplicated3_x'' = Some 102 \<and>
   cpp_run upcalls_index ''Rf_asChar_x'' = Some 102 \<and>
   ''Rf_any_duplicated3_x'' \<noteq> ''Rf_asChar_x'' \<and>
   \<not> inj_on (cpp_run upcalls_index) (dom (cpp_run upcalls_index))"
proof -
  have a: "cpp_run upcalls_index ''Rf_any_duplicated3_x'' = Some 102"
    by (simp add: cpp_run_slots_of slots_Rf_any_duplicated3)
  have b: "cpp_run upcalls_index ''Rf_asChar_x'' = Some 102"
    by (simp add: cpp_run_slots_of slots_Rf_asChar)
  have c: "''Rf_any_duplicated3_x'' \<noteq> ''Rf_asChar_x''"
    by simp
  have "\<not> inj_on (cpp_run upcalls_index) (dom (cpp_run upcalls_index))"
  proof
    assume inj: "inj_on (cpp_run upcalls_index) (dom (cpp_run upcalls_index))"
    have eq: "cpp_run upcalls_index ''Rf_any_duplicated3_x'' =
        cpp_run upcalls_index ''Rf_asChar_x''"
      using a b by simp
    have m1: "''Rf_any_duplicated3_x'' \<in> dom (cpp_run upcalls_index)"
      using a by (simp add: dom_def)
    have m2: "''Rf_asChar_x'' \<in> dom (cpp_run upcalls_index)"
      using b by (simp add: dom_def)
    from inj_onD [OF inj eq m1 m2] show False
      by simp
  qed
  with a b c show ?thesis by simp
qed

text \<open>
  C9, as stated: in each of the passes of lines 5 to 198 and of lines 217 to 392 the
  names are in strictly increasing ASCII order. They are not: line 52 defines
  \<^verbatim>\<open>R_Home_x\<close> and line 53 \<^verbatim>\<open>R_HomeDir_x\<close>, and the underscore (code 95) comes after
  the letter D (code 68).
\<close>

theorem C9_names_not_in_ascii_order:
  "map fst (define_lines 52 53) = [''R_Home_x'', ''R_HomeDir_x''] \<and>
   \<not> ''R_Home_x'' < ''R_HomeDir_x'' \<and>
   \<not> sorted_wrt (<) (map fst (define_lines 5 198))"
proof -
  have "\<not> sorted_wrt (<) (map fst (define_lines 5 198))"
    using lines_5_198_names
    by (simp add: successively_conv_sorted_wrt [OF transp_less_string])
  then show ?thesis
    by (simp add: lines_52_53_names)
qed

text \<open>
  C9, amended: in each of the two passes the names without their suffix \<^verbatim>\<open>_x\<close> are in
  strictly increasing ASCII order, and the slot values are consecutive: 0 to 193 on
  lines 5 to 198, and 102 to 277 on lines 217 to 392.
\<close>

theorem C9_passes_sorted_by_base_name:
  "sorted_wrt (<) (map (base_name \<circ> fst) (define_lines 5 198)) \<and>
   map snd (define_lines 5 198) = [0..<194] \<and>
   sorted_wrt (<) (map (base_name \<circ> fst) (define_lines 217 392)) \<and>
   map snd (define_lines 217 392) = [102..<278]"
  using lines_5_198_base_names lines_217_392_base_names
  by (simp add: successively_conv_sorted_wrt [OF transp_less_string]
      lines_5_198_slots lines_217_392_slots)

text \<open>
  C10. \<open>UPCALLS_TABLE_SIZE\<close> is one more than the largest slot value of the table,
  so every slot value of the table is below it.
\<close>

theorem C10_size_is_max_slot_plus_one:
  "UPCALLS_TABLE_SIZE = Suc (Max (snd ` set upcalls_index)) \<and>
   Max (snd ` set upcalls_index) = 277 \<and>
   (\<forall>d \<in> set upcalls_index. snd d < UPCALLS_TABLE_SIZE)"
proof -
  have "Max {0..<278::nat} = 277"
    by (rule Max_eqI) auto
  then have m: "Max (snd ` set upcalls_index) = 277"
    by (simp only: slot_value_set)
  have "\<forall>d \<in> set upcalls_index. snd d \<in> {0..<278}"
    using slot_value_set by blast
  then have "\<forall>d \<in> set upcalls_index. snd d < UPCALLS_TABLE_SIZE"
    by (simp add: UPCALLS_TABLE_SIZE_def)
  with m show ?thesis
    by (simp add: UPCALLS_TABLE_SIZE_def)
qed

theorem C10_size_is_max_slot_plus_one_witness:
  "define_line 385 \<in> set upcalls_index \<and> snd (define_line 385) = 270 \<and>
   270 < UPCALLS_TABLE_SIZE \<and> UPCALLS_TABLE_SIZE = 278"
proof -
  have "define_line 385 \<in> set (define_lines 5 392)"
    by (simp add: define_line_in_lines)
  then have b: "define_line 385 \<in> set upcalls_index"
    by (simp add: define_lines_all)
  with C10_size_is_max_slot_plus_one have "snd (define_line 385) < UPCALLS_TABLE_SIZE"
    by blast
  with b C10_size_is_max_slot_plus_one show ?thesis
    by (simp add: define_line_385)
qed

end
